theory Spec2Isabelle
  imports Complex_Main "HOL-Library.Log_Nat"
begin

section \<open>The page: elements, inline styles, class lists\<close>

text \<open>
  Times are milliseconds, as \<^verbatim>\<open>setTimeout\<close> takes them. An element carries the inline
  style properties the animation code writes and its class list. Elements are found by the
  selectors of \<^verbatim>\<open>animation.ts\<close>; a lookup that finds nothing yields \<open>None\<close>.
\<close>

type_synonym ms = rat

record css =
  opacity :: string
  transform :: string
  filter_css :: string
  display :: string
  background :: string

record element =
  style :: css
  classList :: "string list"

datatype role =
    Loading | Content | Title | Tagline | ComingSoon | LightningOverlay
  | SlashOverlay | SlashLine | BurstOverlay | ParticlesContainer | Body

section \<open>Numbers of the particle engine\<close>

text \<open>
  A JavaScript number is an IEEE 754 binary64 value. \<open>Fin q\<close> is the finite double whose value
  is the rational \<open>q\<close> (the two zeros are not told apart); every arithmetic operation
  computes the exact result and rounds it to the nearest double, ties to the even mantissa
  (\<open>round64\<close>).
\<close>

datatype jsnum = Fin rat | PosInf | NegInf | NaN

definition pow2 :: "int \<Rightarrow> rat" where
  "pow2 e = (if 0 \<le> e then 2 ^ nat e else 1 / 2 ^ nat (- e))"

text \<open>\<open>ilog2 a\<close> is the exponent \<open>e\<close> with \<open>2^e \<le> a < 2^(e+1)\<close>, for a positive rational.\<close>

definition ilog2 :: "rat \<Rightarrow> int" where
  "ilog2 a =
     (let (p, q) = quotient_of a;
          e0 = bitlen p - bitlen q
      in if pow2 e0 \<le> a then e0 else e0 - 1)"

definition round_half_even :: "rat \<Rightarrow> int" where
  "round_half_even x =
     (let f = \<lfloor>x\<rfloor>; r = x - of_int f
      in if r < 1 / 2 then f
         else if 1 / 2 < r then f + 1
         else if even f then f else f + 1)"

definition round64 :: "rat \<Rightarrow> jsnum" where
  "round64 x =
     (if x = 0 then Fin 0
      else
        let a = \<bar>x\<bar>;
            e = max (ilog2 a) (- 1022);
            q = pow2 (e - 52);
            r = of_int (round_half_even (a / q)) * q
        in if pow2 1024 \<le> r then (if 0 < x then PosInf else NegInf)
           else Fin (if 0 < x then r else - r))"

fun js_mul :: "jsnum \<Rightarrow> jsnum \<Rightarrow> jsnum" where
  "js_mul NaN _ = NaN"
| "js_mul _ NaN = NaN"
| "js_mul (Fin a) (Fin b) = round64 (a * b)"
| "js_mul (Fin a) PosInf = (if a = 0 then NaN else if 0 < a then PosInf else NegInf)"
| "js_mul (Fin a) NegInf = (if a = 0 then NaN else if 0 < a then NegInf else PosInf)"
| "js_mul PosInf (Fin b) = (if b = 0 then NaN else if 0 < b then PosInf else NegInf)"
| "js_mul NegInf (Fin b) = (if b = 0 then NaN else if 0 < b then NegInf else PosInf)"
| "js_mul PosInf PosInf = PosInf"
| "js_mul PosInf NegInf = NegInf"
| "js_mul NegInf PosInf = NegInf"
| "js_mul NegInf NegInf = PosInf"

text \<open>
  Division by a finite non-zero divisor is all the particle code performs (by 3 and by 1.5);
  a zero divisor gives an infinity or NaN as in JavaScript, with the sign of the dividend.
\<close>

fun js_div :: "jsnum \<Rightarrow> jsnum \<Rightarrow> jsnum" where
  "js_div NaN _ = NaN"
| "js_div _ NaN = NaN"
| "js_div (Fin a) (Fin b) =
     (if b = 0 then (if a = 0 then NaN else if 0 < a then PosInf else NegInf)
      else round64 (a / b))"
| "js_div (Fin a) PosInf = Fin 0"
| "js_div (Fin a) NegInf = Fin 0"
| "js_div PosInf (Fin b) = (if 0 \<le> b then PosInf else NegInf)"
| "js_div NegInf (Fin b) = (if 0 \<le> b then NegInf else PosInf)"
| "js_div PosInf PosInf = NaN"
| "js_div PosInf NegInf = NaN"
| "js_div NegInf PosInf = NaN"
| "js_div NegInf NegInf = NaN"

text \<open>A rational is a double when rounding leaves it alone.\<close>

definition is_double :: "rat \<Rightarrow> bool" where
  "is_double x = (round64 x = Fin x)"

section \<open>The particle handle\<close>

text \<open>
  What \<^verbatim>\<open>particles.ts\<close> reads of a tsParticles container: the live particles, each
  with an optional velocity vector, and \<^verbatim>\<open>options.particles?.number\<close>, whose value is a
  number or a range object.
\<close>

record vector =
  vx :: jsnum
  vy :: jsnum

record particle =
  velocity :: "vector option"

datatype range_value = Number jsnum | Range jsnum jsnum

record container =
  c_particles :: "particle list"
  c_number :: "range_value option"

datatype error = Error string

text \<open>
  The engine is an external collaborator: \<^verbatim>\<open>loadSlim\<close> and \<^verbatim>\<open>tsParticles.load\<close> either
  reject with an error or fulfil; \<open>load\<close> may fulfil with \<^verbatim>\<open>undefined\<close>.
\<close>

record engine =
  loadSlim :: "error + unit"
  load :: "error + container option"

definition initParticles :: "engine \<Rightarrow> error + container option" where
  "initParticles eng =
     (case loadSlim eng of
        Inl e \<Rightarrow> Inl e
      | Inr _ \<Rightarrow> load eng)"

definition accelerate_particle :: "particle \<Rightarrow> particle" where
  "accelerate_particle p =
     (case velocity p of
        None \<Rightarrow> p
      | Some v \<Rightarrow>
          p\<lparr>velocity := Some (v\<lparr>vx := js_mul (vx v) (Fin 3), vy := js_mul (vy v) (Fin 3)\<rparr>)\<rparr>)"

definition accelerateParticles :: "container option \<Rightarrow> container option" where
  "accelerateParticles handle =
     (case handle of
        None \<Rightarrow> None
      | Some c \<Rightarrow>
          Some (c\<lparr>c_particles := map accelerate_particle (c_particles c),
                  c_number :=
                    (case c_number c of
                       Some (Number currentValue) \<Rightarrow> Some (Number (js_mul currentValue (Fin (3 / 2))))
                     | other \<Rightarrow> other)\<rparr>))"

definition reset_particle :: "particle \<Rightarrow> particle" where
  "reset_particle p =
     (case velocity p of
        None \<Rightarrow> p
      | Some v \<Rightarrow>
          p\<lparr>velocity := Some (v\<lparr>vx := js_div (vx v) (Fin 3), vy := js_div (vy v) (Fin 3)\<rparr>)\<rparr>)"

definition resetParticles :: "container option \<Rightarrow> container option" where
  "resetParticles handle =
     (case handle of
        None \<Rightarrow> None
      | Some c \<Rightarrow>
          Some (c\<lparr>c_particles := map reset_particle (c_particles c),
                  c_number :=
                    (case c_number c of
                       Some (Number currentValue) \<Rightarrow> Some (Number (js_div currentValue (Fin (3 / 2))))
                     | other \<Rightarrow> other)\<rparr>))"

section \<open>Timers, promises and the event loop\<close>

datatype intensity = Subtle | Medium | Full

text \<open>
  \<open>cont\<close> is what was attached with \<^verbatim>\<open>.then\<close> to the promise of a flash or flicker: nothing
  (the timeline discards the promise) or \<^verbatim>\<open>scheduleNext\<close> of an ambient session.
  \<open>flicker_pc\<close> names the resumption points of \<^verbatim>\<open>flickerLightning\<close>, one after each
  \<^verbatim>\<open>await delay(...)\<close>.
\<close>

datatype cont = Done | ScheduleNext nat

datatype flicker_pc =
    FirstOn | FirstOff | SecondOn | SecondOff | ThirdWait | ThirdOn | Settle

datatype call =
    Accelerate | Flicker | Glitch ms | Flash intensity | Slash | Burst | Shake ms
  | ResetP | GlowPulse | SecondSlash | ExtraGlitch | AmbientStart

datatype tween = DarknessWait | TitleReveal | TaglineReveal | ComingSoonReveal

datatype task =
    RemoveClass role string
  | FlashOff role intensity cont
  | FlashSettled role cont
  | FlickerResume flicker_pc role cont
  | AmbientTimeout nat
  | AmbientFrame nat
  | GlitchTick
  | LoadingFaded
  | TimelineCall call
  | TweenStart tween
  | TweenComplete tween
  | TimelineComplete

record timer =
  t_id :: nat
  t_due :: ms
  t_every :: "ms option"
  t_task :: task

text \<open>The closure variables of one \<^verbatim>\<open>startAmbientLightning\<close> call.\<close>

record session =
  isRunning :: bool
  timeoutId :: "nat option"
  s_overlay :: role

text \<open>
  The cleanup closures: the one \<^verbatim>\<open>startAmbientLightning\<close> returns, and the wrapper of
  \<^verbatim>\<open>runEntranceAnimation\<close> that also clears the glitch interval.
\<close>

datatype cleanup = AmbientStop nat | AndClearInterval cleanup nat

datatype event =
    ConsoleWarn string
  | FlashCalled role intensity
  | FlashResolved role
  | FlickerCalled role
  | FlickerResolved role
  | AmbientScheduled nat
  | AmbientFired nat
  | TimerCleared nat
  | ParticlesInitCalled
  | GsapSet role
  | GsapTo role
  | EntranceResolved

text \<open>
  The state of one page. \<open>reducedMotion\<close> is what
  \<^verbatim>\<open>matchMedia("(prefers-reduced-motion: reduce)").matches\<close> answers; \<open>randoms\<close> is the
  sequence \<^verbatim>\<open>Math.random\<close> will return and \<open>randomPos\<close> how many were drawn;
  \<open>frameDelay\<close> is the time until the next animation frame; \<open>sessions\<close> holds the closure
  variables of the ambient sessions started so far; \<open>particles\<close> is the local variable of
  that name in \<^verbatim>\<open>runEntranceAnimation\<close>, which the timeline callbacks capture; \<open>trace\<close>
  records calls and resolutions with their times.
\<close>

record world =
  elements :: "role \<Rightarrow> element option"
  reducedMotion :: bool
  now :: ms
  timers :: "timer list"
  nextTimerId :: nat
  frameDelay :: ms
  randoms :: "nat \<Rightarrow> rat"
  randomPos :: nat
  tsParticles :: engine
  particles :: "container option"
  sessions :: "nat \<Rightarrow> session"
  nextSession :: nat
  ambientCleanup :: "cleanup option"
  trace :: "(ms \<times> event) list"

definition emit :: "event \<Rightarrow> world \<Rightarrow> world" where
  "emit e w = w\<lparr>trace := trace w @ [(now w, e)]\<rparr>"

definition Math_random :: "world \<Rightarrow> rat \<times> world" where
  "Math_random w = (randoms w (randomPos w), w\<lparr>randomPos := Suc (randomPos w)\<rparr>)"

text \<open>
  Writes through an element reference. The source holds references of type
  \<^verbatim>\<open>HTMLElement\<close>, which are never null; a reference to an element the page lacks does not
  arise there, and the model leaves the page unchanged for it.
\<close>

definition update_element :: "role \<Rightarrow> (element \<Rightarrow> element) \<Rightarrow> world \<Rightarrow> world" where
  "update_element r f w =
     (case elements w r of
        None \<Rightarrow> w
      | Some el \<Rightarrow> w\<lparr>elements := (elements w)(r \<mapsto> f el)\<rparr>)"

definition set_opacity :: "role \<Rightarrow> string \<Rightarrow> world \<Rightarrow> world" where
  "set_opacity r v = update_element r (\<lambda>el. el\<lparr>style := (style el)\<lparr>opacity := v\<rparr>\<rparr>)"

definition set_transform :: "role \<Rightarrow> string \<Rightarrow> world \<Rightarrow> world" where
  "set_transform r v = update_element r (\<lambda>el. el\<lparr>style := (style el)\<lparr>transform := v\<rparr>\<rparr>)"

definition set_filter :: "role \<Rightarrow> string \<Rightarrow> world \<Rightarrow> world" where
  "set_filter r v = update_element r (\<lambda>el. el\<lparr>style := (style el)\<lparr>filter_css := v\<rparr>\<rparr>)"

definition set_display :: "role \<Rightarrow> string \<Rightarrow> world \<Rightarrow> world" where
  "set_display r v = update_element r (\<lambda>el. el\<lparr>style := (style el)\<lparr>display := v\<rparr>\<rparr>)"

definition set_background :: "role \<Rightarrow> string \<Rightarrow> world \<Rightarrow> world" where
  "set_background r v = update_element r (\<lambda>el. el\<lparr>style := (style el)\<lparr>background := v\<rparr>\<rparr>)"

definition classList_add :: "role \<Rightarrow> string \<Rightarrow> world \<Rightarrow> world" where
  "classList_add r c =
     update_element r
       (\<lambda>el. el\<lparr>classList := (if c \<in> set (classList el) then classList el else classList el @ [c])\<rparr>)"

definition classList_remove :: "role \<Rightarrow> string \<Rightarrow> world \<Rightarrow> world" where
  "classList_remove r c = update_element r (\<lambda>el. el\<lparr>classList := removeAll c (classList el)\<rparr>)"

text \<open>
  \<^verbatim>\<open>setTimeout\<close>, \<^verbatim>\<open>setInterval\<close> and \<^verbatim>\<open>requestAnimationFrame\<close> queue a callback and
  return its identifier, here the value of \<open>nextTimerId\<close> before the call.
\<close>

definition add_timer :: "task \<Rightarrow> ms \<Rightarrow> ms option \<Rightarrow> world \<Rightarrow> world" where
  "add_timer cb d every w =
     w\<lparr>timers := timers w @ [\<lparr>t_id = nextTimerId w, t_due = now w + d, t_every = every, t_task = cb\<rparr>],
       nextTimerId := Suc (nextTimerId w)\<rparr>"

definition setTimeout :: "task \<Rightarrow> ms \<Rightarrow> world \<Rightarrow> world" where
  "setTimeout cb d = add_timer cb d None"

definition setInterval :: "task \<Rightarrow> ms \<Rightarrow> world \<Rightarrow> world" where
  "setInterval cb d = add_timer cb d (Some d)"

definition requestAnimationFrame :: "task \<Rightarrow> world \<Rightarrow> world" where
  "requestAnimationFrame cb w = add_timer cb (frameDelay w) None w"

definition clearTimeout :: "nat \<Rightarrow> world \<Rightarrow> world" where
  "clearTimeout i w = emit (TimerCleared i) (w\<lparr>timers := filter (\<lambda>t. t_id t \<noteq> i) (timers w)\<rparr>)"

definition clearInterval :: "nat \<Rightarrow> world \<Rightarrow> world" where
  "clearInterval = clearTimeout"

section \<open>The lightning effects\<close>

record intensityConfig =
  duration :: ms
  peak :: string
  blueTint :: bool

text \<open>\<open>peak\<close> is \<^verbatim>\<open>String(config.opacity)\<close>, the text written to the style.\<close>

fun INTENSITY_CONFIG :: "intensity \<Rightarrow> intensityConfig" where
  "INTENSITY_CONFIG Subtle = \<lparr>duration = 50, peak = ''0.3'', blueTint = False\<rparr>"
| "INTENSITY_CONFIG Medium = \<lparr>duration = 100, peak = ''0.6'', blueTint = False\<rparr>"
| "INTENSITY_CONFIG Full = \<lparr>duration = 150, peak = ''0.9'', blueTint = True\<rparr>"

definition AMBIENT_MIN_INTERVAL :: ms where
  "AMBIENT_MIN_INTERVAL = 8000"

definition AMBIENT_MAX_INTERVAL :: ms where
  "AMBIENT_MAX_INTERVAL = 12000"

definition prefersReducedMotion :: "world \<Rightarrow> bool" where
  "prefersReducedMotion w = reducedMotion w"

definition blue_gradient :: string where
  "blue_gradient =
     ''linear-gradient(180deg, rgba(100, 149, 237, 0.3) 0%, rgba(255, 255, 255, 0.9) 50%, rgba(100, 149, 237, 0.3) 100%)''"

definition applyBlueTint :: "role \<Rightarrow> world \<Rightarrow> world" where
  "applyBlueTint overlay = set_background overlay blue_gradient"

definition removeBlueTint :: "role \<Rightarrow> world \<Rightarrow> world" where
  "removeBlueTint overlay = set_background overlay []"

definition getRandomInterval :: "world \<Rightarrow> ms \<times> world" where
  "getRandomInterval w =
     (let (r, w1) = Math_random w
      in (AMBIENT_MIN_INTERVAL + r * (AMBIENT_MAX_INTERVAL - AMBIENT_MIN_INTERVAL), w1))"

text \<open>\<^verbatim>\<open>scheduleNext\<close> of session \<open>sid\<close>: the timeout it sets is kept in \<open>timeoutId\<close>.\<close>

definition scheduleNext :: "nat \<Rightarrow> world \<Rightarrow> world" where
  "scheduleNext sid w =
     (if \<not> isRunning (sessions w sid) then w
      else
        let (interval, w1) = getRandomInterval w;
            i = nextTimerId w1;
            w2 = setTimeout (AmbientTimeout sid) interval (emit (AmbientScheduled sid) w1)
        in w2\<lparr>sessions := (sessions w2)(sid := (sessions w2 sid)\<lparr>timeoutId := Some i\<rparr>)\<rparr>)"

text \<open>Running the \<^verbatim>\<open>.then\<close> callback once the promise is resolved.\<close>

fun run_cont :: "cont \<Rightarrow> world \<Rightarrow> world" where
  "run_cont Done w = w"
| "run_cont (ScheduleNext sid) w = scheduleNext sid w"

definition flashLightning :: "role \<Rightarrow> intensity \<Rightarrow> cont \<Rightarrow> world \<Rightarrow> world" where
  "flashLightning overlay intensity k w0 =
     (let w = emit (FlashCalled overlay intensity) w0
      in if prefersReducedMotion w then run_cont k (emit (FlashResolved overlay) w)
         else
           let config = INTENSITY_CONFIG intensity;
               w1 = (if blueTint config then applyBlueTint overlay w else w);
               w2 = set_opacity overlay (peak config) w1
           in setTimeout (FlashOff overlay intensity k) (duration config) w2)"

definition flash_off :: "role \<Rightarrow> intensity \<Rightarrow> cont \<Rightarrow> world \<Rightarrow> world" where
  "flash_off overlay intensity k w =
     (let config = INTENSITY_CONFIG intensity;
          w1 = set_opacity overlay ''0'' w;
          w2 = (if blueTint config then removeBlueTint overlay w1 else w1)
      in setTimeout (FlashSettled overlay k) 50 w2)"

definition flash_settled :: "role \<Rightarrow> cont \<Rightarrow> world \<Rightarrow> world" where
  "flash_settled overlay k w = run_cont k (emit (FlashResolved overlay) w)"

definition delay :: "ms \<Rightarrow> task \<Rightarrow> world \<Rightarrow> world" where
  "delay d resume = setTimeout resume d"

definition flickerLightning :: "role \<Rightarrow> cont \<Rightarrow> world \<Rightarrow> world" where
  "flickerLightning overlay k w0 =
     (let w = emit (FlickerCalled overlay) w0
      in if prefersReducedMotion w then run_cont k (emit (FlickerResolved overlay) w)
         else delay 40 (FlickerResume FirstOn overlay k) (set_opacity overlay ''0.5'' w))"

text \<open>The rest of \<^verbatim>\<open>flickerLightning\<close> from each resumption point on.\<close>

fun flicker_resume :: "flicker_pc \<Rightarrow> role \<Rightarrow> cont \<Rightarrow> world \<Rightarrow> world" where
  "flicker_resume FirstOn overlay k w =
     delay 60 (FlickerResume FirstOff overlay k) (set_opacity overlay ''0'' w)"
| "flicker_resume FirstOff overlay k w =
     delay 50 (FlickerResume SecondOn overlay k) (set_opacity overlay ''0.7'' w)"
| "flicker_resume SecondOn overlay k w =
     delay 80 (FlickerResume SecondOff overlay k) (set_opacity overlay ''0'' w)"
| "flicker_resume SecondOff overlay k w =
     (let (r, w1) = Math_random w
      in if 0.5 < r then delay 40 (FlickerResume ThirdWait overlay k) w1
         else delay 50 (FlickerResume Settle overlay k) w1)"
| "flicker_resume ThirdWait overlay k w =
     delay 30 (FlickerResume ThirdOn overlay k) (set_opacity overlay ''0.3'' w)"
| "flicker_resume ThirdOn overlay k w =
     delay 50 (FlickerResume Settle overlay k) (set_opacity overlay ''0'' w)"
| "flicker_resume Settle overlay k w = run_cont k (emit (FlickerResolved overlay) w)"

definition ambient_timeout :: "nat \<Rightarrow> world \<Rightarrow> world" where
  "ambient_timeout sid w =
     (if \<not> isRunning (sessions w sid) then w
      else requestAnimationFrame (AmbientFrame sid) w)"

definition ambient_frame :: "nat \<Rightarrow> world \<Rightarrow> world" where
  "ambient_frame sid w =
     (if \<not> isRunning (sessions w sid) then w
      else
        let (r, w1) = Math_random w;
            useFlicker = (0.7 < r);
            overlay = s_overlay (sessions w sid);
            w2 = emit (AmbientFired sid) w1
        in if useFlicker then flickerLightning overlay (ScheduleNext sid) w2
           else flashLightning overlay Subtle (ScheduleNext sid) w2)"

definition startAmbientLightning :: "role \<Rightarrow> world \<Rightarrow> cleanup \<times> world" where
  "startAmbientLightning overlay w =
     (let sid = nextSession w;
          w1 = w\<lparr>sessions := (sessions w)(sid := \<lparr>isRunning = True, timeoutId = None, s_overlay = overlay\<rparr>),
                 nextSession := Suc sid\<rparr>
      in (AmbientStop sid, scheduleNext sid w1))"

text \<open>Calling a cleanup closure.\<close>

fun run_cleanup :: "cleanup \<Rightarrow> world \<Rightarrow> world" where
  "run_cleanup (AmbientStop sid) w =
     (let s = sessions w sid;
          w1 = w\<lparr>sessions := (sessions w)(sid := s\<lparr>isRunning := False\<rparr>)\<rparr>;
          w2 = (case timeoutId s of
                  None \<Rightarrow> w1
                | Some i \<Rightarrow>
                    (let w' = clearTimeout i w1
                     in w'\<lparr>sessions := (sessions w')(sid := (sessions w' sid)\<lparr>timeoutId := None\<rparr>)\<rparr>))
      in removeBlueTint (s_overlay s) (set_opacity (s_overlay s) ''0'' w2))"
| "run_cleanup (AndClearInterval originalCleanup glitchInterval) w =
     clearInterval glitchInterval (run_cleanup originalCleanup w)"

section \<open>The orchestrator\<close>

definition present :: "world \<Rightarrow> role \<Rightarrow> bool" where
  "present w r = (elements w r \<noteq> None)"

definition triggerShake :: "role \<Rightarrow> ms \<Rightarrow> world \<Rightarrow> world" where
  "triggerShake el d w = setTimeout (RemoveClass el ''shake'') d (classList_add el ''shake'' w)"

text \<open>
  The promise \<^verbatim>\<open>triggerSlash\<close> returns is dropped by every caller, so resolving it runs
  nothing: its timeout only removes the class.
\<close>

definition triggerSlash :: "role \<Rightarrow> world \<Rightarrow> world" where
  "triggerSlash slashLine w =
     setTimeout (RemoveClass slashLine ''animate'') 300 (classList_add slashLine ''animate'' w)"

definition triggerBurst :: "role \<Rightarrow> world \<Rightarrow> world" where
  "triggerBurst burstOverlay w =
     setTimeout (RemoveClass burstOverlay ''burst-animate'') 600
       (classList_add burstOverlay ''burst-animate'' w)"

definition triggerGlitch :: "role \<Rightarrow> ms \<Rightarrow> world \<Rightarrow> world" where
  "triggerGlitch title d w = setTimeout (RemoveClass title ''glitch'') d (classList_add title ''glitch'' w)"

definition showContentImmediately :: "world \<Rightarrow> world" where
  "showContentImmediately w =
     (let w1 = (if present w Loading then set_display Loading ''none'' w else w);
          w2 = (if present w1 Content
                then set_opacity Content ''1'' (classList_remove Content ''hidden'' w1) else w1);
          w3 = (if present w2 Title
                then set_filter Title ''blur(0px)''
                       (set_transform Title ''scale(1)'' (set_opacity Title ''1'' w2))
                else w2);
          w4 = (if present w3 Tagline
                then set_transform Tagline ''translateY(0)'' (set_opacity Tagline ''1'' w3)
                else w3)
      in if present w4 ComingSoon then set_opacity ComingSoon ''1'' w4 else w4)"

subsection \<open>The timeline\<close>

text \<open>
  Modelled from the spec: the timeline of the animation library, which is not part of the
  repository. A timeline is an ordered sequence of scheduled actions, each placed either
  after the end of the previous action plus a delay (\<^verbatim>\<open>"+=d"\<close>, and no position at all for
  \<open>d = 0\<close>), or at the start of the previous action (\<^verbatim>\<open>"<"\<close>). A callback has no length.
  Times of a timeline are seconds from its start.
\<close>

datatype item = Callback call | TweenTo tween

datatype position = Sequential rat | WithPrevious

record child =
  c_start :: rat
  c_dur :: rat
  c_item :: item

definition tl_add :: "position \<Rightarrow> rat \<Rightarrow> item \<Rightarrow> child list \<Rightarrow> child list" where
  "tl_add pos d it line =
     (let start =
            (case pos of
               Sequential gap \<Rightarrow> (if line = [] then 0 else c_start (last line) + c_dur (last line)) + gap
             | WithPrevious \<Rightarrow> (if line = [] then 0 else c_start (last line)))
      in line @ [\<lparr>c_start = start, c_dur = d, c_item = it\<rparr>])"

definition tl_end :: "child list \<Rightarrow> rat" where
  "tl_end line = fold (\<lambda>c m. max m (c_start c + c_dur c)) line 0"

definition PHASE_DURATIONS_darkness :: rat where
  "PHASE_DURATIONS_darkness = 0.8"

definition PHASE_DURATIONS_anticipation :: rat where
  "PHASE_DURATIONS_anticipation = 1.2"

definition PHASE_DURATIONS_impact :: rat where
  "PHASE_DURATIONS_impact = 0.4"

definition PHASE_DURATIONS_settle :: rat where
  "PHASE_DURATIONS_settle = 2.0"

text \<open>The calls \<^verbatim>\<open>runEntranceAnimation\<close> makes on the timeline, in source order.\<close>

definition entrance_script :: "(position \<times> rat \<times> item) list" where
  "entrance_script =
     [(Sequential 0, PHASE_DURATIONS_darkness, TweenTo DarknessWait),
      (Sequential 0, 0, Callback Accelerate),
      (Sequential 0.2, 0, Callback Flicker),
      (Sequential 0.3, 0, Callback (Glitch 150)),
      (Sequential 0.2, 0, Callback (Flash Medium)),
      (Sequential 0.1, 0, Callback (Glitch 100)),
      (Sequential 0.2, 0, Callback Flicker),
      (Sequential 0, 0, Callback (Flash Full)),
      (WithPrevious, 0, Callback Slash),
      (WithPrevious, 0, Callback Burst),
      (WithPrevious, 0, Callback (Shake 500)),
      (WithPrevious, 0, Callback (Glitch 200)),
      (WithPrevious, PHASE_DURATIONS_impact, TweenTo TitleReveal),
      (Sequential 0, 0, Callback ResetP),
      (Sequential 0, 0, Callback GlowPulse),
      (Sequential 0.3, 0, Callback SecondSlash),
      (Sequential 0.2, 0.6, TweenTo TaglineReveal),
      (Sequential 0.3, 0.5, TweenTo ComingSoonReveal),
      (Sequential 0, 0, Callback ExtraGlitch),
      (Sequential 0, 0, Callback AmbientStart)]"

definition entrance_timeline :: "child list" where
  "entrance_timeline = fold (\<lambda>(pos, d, it). tl_add pos d it) entrance_script []"

text \<open>
  Modelled from the spec: playing a timeline. It starts when it is created; every child is
  issued at its start time, a tween completes after its duration, and the timeline
  completes at the end of its last child.
\<close>

fun play_child :: "child \<Rightarrow> world \<Rightarrow> world" where
  "play_child c w =
     (case c_item c of
        Callback f \<Rightarrow> add_timer (TimelineCall f) (1000 * c_start c) None w
      | TweenTo tw \<Rightarrow>
          add_timer (TweenComplete tw) (1000 * (c_start c + c_dur c)) None
            (add_timer (TweenStart tw) (1000 * c_start c) None w))"

definition play :: "child list \<Rightarrow> world \<Rightarrow> world" where
  "play line w = add_timer TimelineComplete (1000 * tl_end line) None (fold play_child line w)"

text \<open>
  The animation library writes the animated properties itself; the model records the call
  (\<open>GsapSet\<close>, \<open>GsapTo\<close>) and runs the \<^verbatim>\<open>onComplete\<close> callbacks the source passes.
\<close>

definition tween_target :: "tween \<Rightarrow> role option" where
  "tween_target tw =
     (case tw of
        DarknessWait \<Rightarrow> None
      | TitleReveal \<Rightarrow> Some Title
      | TaglineReveal \<Rightarrow> Some Tagline
      | ComingSoonReveal \<Rightarrow> Some ComingSoon)"

definition tween_start :: "tween \<Rightarrow> world \<Rightarrow> world" where
  "tween_start tw w = (case tween_target tw of None \<Rightarrow> w | Some r \<Rightarrow> emit (GsapTo r) w)"

definition tween_complete :: "tween \<Rightarrow> world \<Rightarrow> world" where
  "tween_complete tw w =
     (case tw of
        TaglineReveal \<Rightarrow> classList_add Tagline ''revealed'' w
      | ComingSoonReveal \<Rightarrow> classList_add ComingSoon ''revealed'' w
      | _ \<Rightarrow> w)"

definition required_present :: "world \<Rightarrow> bool" where
  "required_present w =
     (present w Content \<and> present w Title \<and> present w Tagline \<and> present w ComingSoon
      \<and> present w LightningOverlay)"

text \<open>
  The \<^verbatim>\<open>try\<close>/\<^verbatim>\<open>catch\<close> around \<^verbatim>\<open>await initParticles("particles")\<close>: a rejection is
  logged and leaves the local variable \<^verbatim>\<open>particles\<close> undefined.
\<close>

definition init_particles_guarded :: "world \<Rightarrow> world" where
  "init_particles_guarded w =
     (let w0 = w\<lparr>particles := None\<rparr>
      in if present w0 ParticlesContainer
         then (case initParticles (tsParticles w0) of
                 Inr c \<Rightarrow> (emit ParticlesInitCalled w0)\<lparr>particles := c\<rparr>
               | Inl e \<Rightarrow>
                   emit (ConsoleWarn ''Animation: Failed to initialize particles'')
                     (emit ParticlesInitCalled w0))
         else w0)"

text \<open>
  The statements between particle initialisation and the creation of the timeline: the
  fade of the loading screen (its \<^verbatim>\<open>onComplete\<close> after 0.3 s), the content container made
  visible, the initial states handed to the animation library, the slash overlay shown.
\<close>

definition prepare_page :: "world \<Rightarrow> world" where
  "prepare_page w1 =
     (let w2 = (if present w1 Loading
                then add_timer LoadingFaded 300 None (emit (GsapTo Loading) w1) else w1);
          w3 = set_opacity Content ''1'' (classList_remove Content ''hidden'' w2);
          w4 = emit (GsapSet ComingSoon) (emit (GsapSet Tagline) (emit (GsapSet Title) w3))
      in if present w4 SlashOverlay then set_opacity SlashOverlay ''1'' w4 else w4)"

definition runEntranceAnimation :: "world \<Rightarrow> error + world" where
  "runEntranceAnimation w =
     (if reducedMotion w then Inr (showContentImmediately w)
      else if \<not> required_present w
      then Inr (showContentImmediately
                 (emit (ConsoleWarn ''Animation: Required DOM elements not found, showing content immediately'') w))
      else
        Inr (play entrance_timeline (prepare_page (init_particles_guarded w))))"

text \<open>The callbacks given to \<^verbatim>\<open>tl.add\<close>.\<close>

fun timeline_call :: "call \<Rightarrow> world \<Rightarrow> world" where
  "timeline_call Accelerate w = w\<lparr>particles := accelerateParticles (particles w)\<rparr>"
| "timeline_call Flicker w = flickerLightning LightningOverlay Done w"
| "timeline_call (Glitch d) w = triggerGlitch Title d w"
| "timeline_call (Flash i) w = flashLightning LightningOverlay i Done w"
| "timeline_call Slash w = (if present w SlashLine then triggerSlash SlashLine w else w)"
| "timeline_call Burst w = (if present w BurstOverlay then triggerBurst BurstOverlay w else w)"
| "timeline_call (Shake d) w = triggerShake Body d w"
| "timeline_call ResetP w = w\<lparr>particles := resetParticles (particles w)\<rparr>"
| "timeline_call GlowPulse w = classList_add Title ''glow-pulse'' w"
| "timeline_call SecondSlash w =
     (if present w SlashLine
      then triggerSlash SlashLine (set_transform SlashLine ''rotate(15deg) scaleX(0)'' w)
      else w)"
| "timeline_call ExtraGlitch w = setTimeout (TimelineCall (Glitch 100)) 2000 w"
| "timeline_call AmbientStart w =
     (let (originalCleanup, w1) = startAmbientLightning LightningOverlay w;
          glitchInterval = nextTimerId w1;
          w2 = setInterval GlitchTick 5000 w1
      in w2\<lparr>ambientCleanup := Some (AndClearInterval originalCleanup glitchInterval)\<rparr>)"

definition glitch_tick :: "world \<Rightarrow> world" where
  "glitch_tick w =
     (let (r, w1) = Math_random w
      in if 0.7 < r then triggerGlitch Title 80 w1 else w1)"

definition stopAmbientLightning :: "world \<Rightarrow> world" where
  "stopAmbientLightning w =
     (case ambientCleanup w of
        None \<Rightarrow> w
      | Some cleanup \<Rightarrow> (run_cleanup cleanup w)\<lparr>ambientCleanup := None\<rparr>)"

subsection \<open>The event loop\<close>

fun exec_task :: "task \<Rightarrow> world \<Rightarrow> world" where
  "exec_task (RemoveClass r c) w = classList_remove r c w"
| "exec_task (FlashOff r i k) w = flash_off r i k w"
| "exec_task (FlashSettled r k) w = flash_settled r k w"
| "exec_task (FlickerResume pc r k) w = flicker_resume pc r k w"
| "exec_task (AmbientTimeout sid) w = ambient_timeout sid w"
| "exec_task (AmbientFrame sid) w = ambient_frame sid w"
| "exec_task GlitchTick w = glitch_tick w"
| "exec_task LoadingFaded w = set_display Loading ''none'' w"
| "exec_task (TimelineCall f) w = timeline_call f w"
| "exec_task (TweenStart tw) w = tween_start tw w"
| "exec_task (TweenComplete tw) w = tween_complete tw w"
| "exec_task TimelineComplete w = emit EntranceResolved w"

text \<open>
  The next callback to run is the one due first; among callbacks due at the same time the
  one queued first. An interval is queued again before its callback runs.
\<close>

fun earliest :: "timer list \<Rightarrow> timer option" where
  "earliest [] = None"
| "earliest (t # ts) =
     (case earliest ts of
        None \<Rightarrow> Some t
      | Some u \<Rightarrow> if t_due u < t_due t then Some u else Some t)"

definition step :: "world \<Rightarrow> world option" where
  "step w =
     (case earliest (timers w) of
        None \<Rightarrow> None
      | Some t \<Rightarrow>
          (let rest = filter (\<lambda>u. t_id u \<noteq> t_id t) (timers w);
               again = (case t_every t of
                          None \<Rightarrow> []
                        | Some p \<Rightarrow> [t\<lparr>t_due := t_due t + p\<rparr>]);
               w1 = w\<lparr>now := max (now w) (t_due t), timers := rest @ again\<rparr>
           in Some (exec_task (t_task t) w1)))"

fun run :: "nat \<Rightarrow> world \<Rightarrow> world" where
  "run 0 w = w"
| "run (Suc n) w = (case step w of None \<Rightarrow> w | Some w' \<Rightarrow> run n w')"

section \<open>Observations and concrete pages\<close>

definition style_of :: "world \<Rightarrow> role \<Rightarrow> css option" where
  "style_of w r = map_option style (elements w r)"

definition classes_of :: "world \<Rightarrow> role \<Rightarrow> string list option" where
  "classes_of w r = map_option classList (elements w r)"

text \<open>What a session itself did: the timeouts it set and the effects it fired.\<close>

definition session_events :: "nat \<Rightarrow> (ms \<times> event) list \<Rightarrow> (ms \<times> event) list" where
  "session_events sid tr = filter (\<lambda>(t, e). e = AmbientScheduled sid \<or> e = AmbientFired sid) tr"

definition effect_calls :: "(ms \<times> event) list \<Rightarrow> (ms \<times> event) list" where
  "effect_calls tr =
     filter (\<lambda>(t, e). case e of FlashCalled _ _ \<Rightarrow> True | FlickerCalled _ \<Rightarrow> True | _ \<Rightarrow> False) tr"

text \<open>
  A velocity component or count survives scaling by \<open>k\<close> and back when the scaled value is
  itself a double, so that neither operation rounds.
\<close>

fun exact_scaling :: "rat \<Rightarrow> jsnum \<Rightarrow> bool" where
  "exact_scaling k (Fin q) = (is_double q \<and> is_double (q * k))"
| "exact_scaling k PosInf = True"
| "exact_scaling k NegInf = True"
| "exact_scaling k NaN = True"

definition exact_particle :: "particle \<Rightarrow> bool" where
  "exact_particle p =
     (case velocity p of
        None \<Rightarrow> True
      | Some v \<Rightarrow> exact_scaling 3 (vx v) \<and> exact_scaling 3 (vy v))"

definition exact_number :: "range_value option \<Rightarrow> bool" where
  "exact_number n = (case n of Some (Number v) \<Rightarrow> exact_scaling (3 / 2) v | _ \<Rightarrow> True)"

text \<open>
  A page with every element present and no inline style, an engine that yields no handle,
  and \<^verbatim>\<open>Math.random\<close> alternating between 0.9 and 0.2.
\<close>

definition blank_element :: element where
  "blank_element =
     \<lparr>style = \<lparr>opacity = [], transform = [], filter_css = [], display = [], background = []\<rparr>,
      classList = []\<rparr>"

definition demo_page :: world where
  "demo_page =
     \<lparr>elements = (\<lambda>r. Some blank_element), reducedMotion = False, now = 0, timers = [],
      nextTimerId = 1, frameDelay = 16,
      randoms = (\<lambda>n. if even n then 0.9 else 0.2), randomPos = 0,
      tsParticles = \<lparr>loadSlim = Inr (), load = Inr None\<rparr>, particles = None,
      sessions = (\<lambda>n. \<lparr>isRunning = False, timeoutId = None, s_overlay = LightningOverlay\<rparr>),
      nextSession = 0, ambientCleanup = None, trace = []\<rparr>"

text \<open>The same page with the reduced-motion preference switched on while the overlay is lit.\<close>

definition reduced_lit_page :: world where
  "reduced_lit_page = set_opacity LightningOverlay ''0.7'' (demo_page\<lparr>reducedMotion := True\<rparr>)"

text \<open>The blank page with the blue gradient already on the overlay.\<close>

definition tinted_page :: world where
  "tinted_page = set_background LightningOverlay blue_gradient demo_page"

text \<open>
  \<^verbatim>\<open>showContentImmediately\<close> without its guards: a write through a reference to an element
  the page lacks changes nothing, so the guarded and the unguarded sequence agree.
\<close>

definition reveal_all :: "world \<Rightarrow> world" where
  "reveal_all w =
     set_opacity ComingSoon ''1''
       (set_transform Tagline ''translateY(0)'' (set_opacity Tagline ''1''
         (set_filter Title ''blur(0px)'' (set_transform Title ''scale(1)'' (set_opacity Title ''1''
           (set_opacity Content ''1'' (classList_remove Content ''hidden''
             (set_display Loading ''none'' w))))))))"

text \<open>
  More pages: the blank page with the reduced-motion preference on; that page with the
  coming-soon marker scaled down and blurred and the tagline blurred; the blank page
  without a title element; and the blank page whose particle engine fails to load.
\<close>

definition reduced_page :: world where
  "reduced_page = demo_page\<lparr>reducedMotion := True\<rparr>"

definition shrunk_marker_page :: world where
  "shrunk_marker_page =
     set_filter Tagline ''blur(3px)''
       (set_filter ComingSoon ''blur(5px)'' (set_transform ComingSoon ''scale(0.8)'' reduced_page))"

definition untitled_page :: world where
  "untitled_page = demo_page\<lparr>elements := (elements demo_page)(Title := None)\<rparr>"

definition failing_page :: world where
  "failing_page =
     demo_page\<lparr>tsParticles := \<lparr>loadSlim = Inl (Error ''load failed''), load = Inr None\<rparr>\<rparr>"






section \<open>Unfolding rules\<close>

lemmas dom_defs =
  set_opacity_def set_transform_def set_filter_def set_display_def set_background_def
  classList_add_def classList_remove_def update_element_def present_def style_of_def
  classes_of_def

lemmas timer_defs =
  add_timer_def setTimeout_def setInterval_def requestAnimationFrame_def clearTimeout_def
  clearInterval_def delay_def emit_def step_def Math_random_def

lemmas flash_defs =
  flashLightning_def flash_off_def flash_settled_def flickerLightning_def
  prefersReducedMotion_def applyBlueTint_def removeBlueTint_def

lemmas page_defs =
  demo_page_def blank_element_def reduced_lit_page_def reduced_page_def untitled_page_def
  failing_page_def

lemmas ambient_defs =
  scheduleNext_def getRandomInterval_def ambient_timeout_def ambient_frame_def
  startAmbientLightning_def AMBIENT_MIN_INTERVAL_def AMBIENT_MAX_INTERVAL_def

lemmas trigger_defs =
  triggerShake_def triggerSlash_def triggerBurst_def triggerGlitch_def glitch_tick_def
  tween_start_def tween_complete_def

section \<open>Frame rules for element updates\<close>

lemma world_eqI:
  fixes a b :: world
  assumes "elements a = elements b" "reducedMotion a = reducedMotion b" "now a = now b"
    "timers a = timers b" "nextTimerId a = nextTimerId b" "frameDelay a = frameDelay b"
    "randoms a = randoms b" "randomPos a = randomPos b" "tsParticles a = tsParticles b"
    "particles a = particles b" "sessions a = sessions b" "nextSession a = nextSession b"
    "ambientCleanup a = ambientCleanup b" "trace a = trace b"
  shows "a = b"
  using assms by (cases a, cases b) simp

lemma elements_update_element:
  "elements (update_element r f w) = (elements w)(r := map_option f (elements w r))"
  by (cases "elements w r") (simp_all add: update_element_def fun_eq_iff)

lemma update_element_fields:
  "reducedMotion (update_element r f w) = reducedMotion w"
  "now (update_element r f w) = now w"
  "timers (update_element r f w) = timers w"
  "nextTimerId (update_element r f w) = nextTimerId w"
  "frameDelay (update_element r f w) = frameDelay w"
  "randoms (update_element r f w) = randoms w"
  "randomPos (update_element r f w) = randomPos w"
  "tsParticles (update_element r f w) = tsParticles w"
  "particles (update_element r f w) = particles w"
  "sessions (update_element r f w) = sessions w"
  "nextSession (update_element r f w) = nextSession w"
  "ambientCleanup (update_element r f w) = ambientCleanup w"
  "trace (update_element r f w) = trace w"
  by (simp_all add: update_element_def split: option.split)

lemmas elem_simps = elements_update_element update_element_fields

lemmas style_defs =
  set_opacity_def set_transform_def set_filter_def set_display_def set_background_def
  classList_add_def classList_remove_def present_def style_of_def classes_of_def

section \<open>The event loop\<close>

lemma run_no_timers: "timers w = [] \<Longrightarrow> run n w = w"
  by (cases n) (simp_all add: step_def)

lemma run_add: "run (m + n) w = run n (run m w)"
proof (induction m arbitrary: w)
  case 0
  then show ?case by simp
next
  case (Suc m)
  show ?case
  proof (cases "step w")
    case None
    then have "run n w = w" by (cases n) simp_all
    with None show ?thesis by simp
  next
    case (Some w')
    with Suc show ?thesis by simp
  qed
qed




section \<open>A single flash\<close>











section \<open>The tint is touched by the full flash only\<close>

lemma flash_bg0:
  assumes "i \<noteq> Full"
  shows "map_option background (style_of (flashLightning overlay i Done w) r)
           = map_option background (style_of w r)"
  using assms
  by (cases i)
     (simp_all add: flash_defs timer_defs style_defs elem_simps Let_def option.map_comp comp_def)

lemma flash_bg1:
  assumes "i \<noteq> Full" and "timers w = []"
  shows "map_option background (style_of (run 1 (flashLightning overlay i Done w)) r)
           = map_option background (style_of w r)"
  using assms
  by (cases i)
     (simp_all add: flash_defs timer_defs style_defs elem_simps Let_def option.map_comp comp_def)

lemma flash_bg2:
  assumes "i \<noteq> Full" and "timers w = []"
  shows "map_option background (style_of (run 2 (flashLightning overlay i Done w)) r)
           = map_option background (style_of w r)
       \<and> timers (run 2 (flashLightning overlay i Done w)) = []"
  using assms
  by (cases i)
     (simp_all add: flash_defs timer_defs style_defs elem_simps Let_def option.map_comp comp_def
        numeral_2_eq_2)

lemma flash_bg_all:
  assumes "i \<noteq> Full" and "timers w = []"
  shows "map_option background (style_of (run n (flashLightning overlay i Done w)) r)
           = map_option background (style_of w r)"
proof -
  consider "n = 0" | "n = 1" | m where "n = 2 + m"
    by (cases n rule: nat.exhaust; simp) (metis One_nat_def add_2_eq_Suc nat.exhaust)
  then show ?thesis
  proof cases
    case 1
    then show ?thesis using flash_bg0[OF assms(1)] by simp
  next
    case 2
    then show ?thesis using flash_bg1[OF assms] by simp
  next
    case 3
    have "run n (flashLightning overlay i Done w) = run m (run 2 (flashLightning overlay i Done w))"
      unfolding 3 by (rule run_add)
    also have "\<dots> = run 2 (flashLightning overlay i Done w)"
      using flash_bg2[OF assms] by (simp add: run_no_timers)
    finally show ?thesis using flash_bg2[OF assms] by simp
  qed
qed

text \<open>Writing a background commutes with everything a subtle or medium flash does.\<close>

lemma set_opacity_set_background:
  "set_opacity r v (set_background r' b w) = set_background r' b (set_opacity r v w)"
  by (rule world_eqI; cases "elements w r"; cases "elements w r'";
      force simp add: set_opacity_def set_background_def elem_simps fun_eq_iff)

lemma add_timer_set_background:
  "add_timer cb d e (set_background r b w) = set_background r b (add_timer cb d e w)"
  by (cases "elements w r") (simp_all add: set_background_def update_element_def add_timer_def)

lemma emit_set_background:
  "emit e (set_background r b w) = set_background r b (emit e w)"
  by (cases "elements w r") (simp_all add: set_background_def update_element_def emit_def)

lemma scheduleNext_set_background:
  "scheduleNext sid (set_background r b w) = set_background r b (scheduleNext sid w)"
  by (cases "elements w r")
     (simp_all add: set_background_def update_element_def scheduleNext_def getRandomInterval_def
        Math_random_def emit_def setTimeout_def add_timer_def Let_def)

lemma run_cont_set_background:
  "run_cont k (set_background r b w) = set_background r b (run_cont k w)"
  by (cases k) (simp_all add: scheduleNext_set_background)

lemma reducedMotion_set_background: "reducedMotion (set_background r b w) = reducedMotion w"
  by (simp add: set_background_def update_element_fields)

lemmas background_commutes =
  set_opacity_set_background add_timer_set_background emit_set_background
  run_cont_set_background reducedMotion_set_background

lemma flash_ignores_background:
  assumes "i \<noteq> Full"
  shows "flashLightning overlay i k (set_background r b w)
           = set_background r b (flashLightning overlay i k w)"
  using assms
  by (cases i)
     (simp_all add: flashLightning_def prefersReducedMotion_def setTimeout_def Let_def
        background_commutes)

lemma flash_off_ignores_background:
  assumes "i \<noteq> Full"
  shows "flash_off overlay i k (set_background r b w) = set_background r b (flash_off overlay i k w)"
  using assms
  by (cases i) (simp_all add: flash_off_def setTimeout_def Let_def background_commutes)

lemma flash_settled_ignores_background:
  "flash_settled overlay k (set_background r b w) = set_background r b (flash_settled overlay k w)"
  by (simp add: flash_settled_def background_commutes)

lemma full_flash_tints:
  assumes "\<not> reducedMotion w" and "present w overlay"
  shows "map_option background (style_of (flashLightning overlay Full Done w) overlay)
           = Some blue_gradient"
proof -
  from assms(2) obtain el where el: "elements w overlay = Some el"
    by (auto simp: present_def)
  show ?thesis
    using assms el by (simp add: flash_defs timer_defs dom_defs Let_def)
qed

text \<open>
  Claim C10. For the subtle and the medium level, with no other callback pending, the
  background of every element is the same after any number of callbacks of the flash as
  before the call, so a tint that was there is still there when the flash has resolved.
  Each of the three pieces of the flash (the call, the flash-off callback, the resolution)
  commutes with a write to any background: it neither reads nor writes that property.
  Only the full level has the tint flag; a full flash applies the gradient (and removes it
  at flash-off, which C2 states).
\<close>

theorem flash_below_full_leaves_background:
  assumes "i = Subtle \<or> i = Medium" and "timers w = []"
  shows "(\<forall>n r. map_option background (style_of (run n (flashLightning overlay i Done w)) r)
                 = map_option background (style_of w r))
       \<and> (\<forall>k r b v. flashLightning overlay i k (set_background r b v)
                      = set_background r b (flashLightning overlay i k v))
       \<and> (\<forall>k r b v. flash_off overlay i k (set_background r b v)
                      = set_background r b (flash_off overlay i k v))
       \<and> (\<forall>k r b v. flash_settled overlay k (set_background r b v)
                      = set_background r b (flash_settled overlay k v))
       \<and> (\<forall>j. blueTint (INTENSITY_CONFIG j) = (j = Full))
       \<and> (\<forall>v. \<not> reducedMotion v \<and> present v overlay \<longrightarrow>
              map_option background (style_of (flashLightning overlay Full Done v) overlay)
                = Some blue_gradient)"
proof -
  from assms(1) have ne: "i \<noteq> Full" by auto
  have cfg: "\<forall>j. blueTint (INTENSITY_CONFIG j) = (j = Full)"
  proof
    fix j show "blueTint (INTENSITY_CONFIG j) = (j = Full)" by (cases j) simp_all
  qed
  show ?thesis
    using flash_bg_all[OF ne assms(2)] flash_ignores_background[OF ne]
      flash_off_ignores_background[OF ne] flash_settled_ignores_background cfg full_flash_tints
    by simp
qed

theorem flash_below_full_leaves_background_witness:
  "(Subtle = Subtle \<or> Subtle = Medium) \<and> timers tinted_page = []
   \<and> map_option background (style_of tinted_page LightningOverlay) = Some blue_gradient
   \<and> map_option background
         (style_of (run 2 (flashLightning LightningOverlay Subtle Done tinted_page)) LightningOverlay)
       = Some blue_gradient"
proof -
  have h1: "Subtle = Subtle \<or> Subtle = Medium" by simp
  have h2: "timers tinted_page = []"
    by (simp add: tinted_page_def page_defs style_defs elem_simps)
  have b: "map_option background (style_of tinted_page LightningOverlay) = Some blue_gradient"
    by (simp add: tinted_page_def page_defs style_defs elem_simps)
  from flash_below_full_leaves_background[OF h1 h2, of LightningOverlay] h1 h2 b
  show ?thesis by simp
qed

section \<open>A flicker\<close>













section \<open>The two bypasses of the entry point\<close>

lemma present_update_element: "present (update_element r f w) r' = present w r'"
  by (simp add: present_def elem_simps)

lemma absent_update: "\<not> present w r \<Longrightarrow> update_element r f w = w"
  by (simp add: update_element_def present_def)

lemma showContent_unguarded: "showContentImmediately w = reveal_all w"
  unfolding showContentImmediately_def reveal_all_def
    set_opacity_def set_transform_def set_filter_def set_display_def classList_remove_def
  by (cases "present w Loading"; cases "present w Content"; cases "present w Title";
      cases "present w Tagline"; cases "present w ComingSoon";
      simp add: Let_def present_update_element absent_update)


lemma showContent_fields:
  "reducedMotion (showContentImmediately w) = reducedMotion w"
  "now (showContentImmediately w) = now w"
  "timers (showContentImmediately w) = timers w"
  "nextTimerId (showContentImmediately w) = nextTimerId w"
  "frameDelay (showContentImmediately w) = frameDelay w"
  "randoms (showContentImmediately w) = randoms w"
  "randomPos (showContentImmediately w) = randomPos w"
  "tsParticles (showContentImmediately w) = tsParticles w"
  "particles (showContentImmediately w) = particles w"
  "sessions (showContentImmediately w) = sessions w"
  "nextSession (showContentImmediately w) = nextSession w"
  "ambientCleanup (showContentImmediately w) = ambientCleanup w"
  "trace (showContentImmediately w) = trace w"
  by (simp_all add: showContent_unguarded reveal_all_def style_defs elem_simps)

lemma showContent_styles:
  "style_of (showContentImmediately w) Loading
     = map_option (\<lambda>s. s\<lparr>display := ''none''\<rparr>) (style_of w Loading)
   \<and> style_of (showContentImmediately w) Content
     = map_option (\<lambda>s. s\<lparr>opacity := ''1''\<rparr>) (style_of w Content)
   \<and> style_of (showContentImmediately w) Title
     = map_option (\<lambda>s. s\<lparr>opacity := ''1'', transform := ''scale(1)'', filter_css := ''blur(0px)''\<rparr>)
         (style_of w Title)
   \<and> style_of (showContentImmediately w) Tagline
     = map_option (\<lambda>s. s\<lparr>opacity := ''1'', transform := ''translateY(0)''\<rparr>) (style_of w Tagline)
   \<and> style_of (showContentImmediately w) ComingSoon
     = map_option (\<lambda>s. s\<lparr>opacity := ''1''\<rparr>) (style_of w ComingSoon)"
  by (simp add: showContent_unguarded reveal_all_def style_defs elem_simps option.map_comp comp_def)

lemma showContent_classes:
  "classes_of (showContentImmediately w) r
     = (if r = Content then map_option (removeAll ''hidden'') (classes_of w Content)
        else classes_of w r)"
  by (cases r)
     (simp_all add: showContent_unguarded reveal_all_def style_defs elem_simps option.map_comp comp_def)

lemma showContent_others:
  "r \<notin> {Loading, Content, Title, Tagline, ComingSoon} \<Longrightarrow>
     elements (showContentImmediately w) r = elements w r"
  by (simp add: showContent_unguarded reveal_all_def style_defs elem_simps)

lemma showContent_present: "present (showContentImmediately w) r = present w r"
  by (simp add: showContent_unguarded reveal_all_def set_opacity_def set_transform_def
      set_filter_def set_display_def classList_remove_def present_update_element)

lemma showContent_only_page:
  "showContentImmediately w = w\<lparr>elements := elements (showContentImmediately w)\<rparr>"
  by (rule world_eqI) (simp_all add: showContent_fields)

lemma update_element_trace:
  "update_element r f (w\<lparr>trace := t\<rparr>) = (update_element r f w)\<lparr>trace := t\<rparr>"
  by (cases "elements w r") (simp_all add: update_element_def)

lemma update_element_reducedMotion:
  "update_element r f (w\<lparr>reducedMotion := t\<rparr>) = (update_element r f w)\<lparr>reducedMotion := t\<rparr>"
  by (cases "elements w r") (simp_all add: update_element_def)

lemma showContent_trace:
  "showContentImmediately (w\<lparr>trace := t\<rparr>) = (showContentImmediately w)\<lparr>trace := t\<rparr>"
  by (simp add: showContent_unguarded reveal_all_def set_opacity_def set_transform_def
      set_filter_def set_display_def classList_remove_def update_element_trace)

lemma showContent_reducedMotion:
  "showContentImmediately (w\<lparr>reducedMotion := t\<rparr>) = (showContentImmediately w)\<lparr>reducedMotion := t\<rparr>"
  by (simp add: showContent_unguarded reveal_all_def set_opacity_def set_transform_def
      set_filter_def set_display_def classList_remove_def update_element_reducedMotion)

text \<open>
  Claim C1, as amended. With the reduced-motion preference on, \<open>runEntranceAnimation\<close>
  returns normally and changes nothing but the page: no timer is set, the clock does not
  move, the trace gains no entry (so no flash, no flicker and no particle initialisation is
  called), and the particle handle and engine are untouched. In that one pass the title
  gets opacity \<open>1\<close>, transform \<open>scale(1)\<close> and filter \<open>blur(0px)\<close>, the tagline opacity
  \<open>1\<close> and transform \<open>translateY(0)\<close>, the coming-soon marker opacity \<open>1\<close>, the loading
  indicator display \<open>none\<close>, the content container opacity \<open>1\<close> without the class
  \<open>hidden\<close>. Nothing else is written: the transform and filter of the coming-soon marker
  and the filter of the tagline stay as they were, like every other property and element.
\<close>

theorem reduced_motion_total_bypass:
  assumes "reducedMotion w"
  shows "\<exists>w'. runEntranceAnimation w = Inr w'
       \<and> w' = w\<lparr>elements := elements w'\<rparr>
       \<and> particles w' = particles w \<and> tsParticles w' = tsParticles w
       \<and> trace w' = trace w \<and> timers w' = timers w \<and> now w' = now w
       \<and> style_of w' Title
           = map_option (\<lambda>s. s\<lparr>opacity := ''1'', transform := ''scale(1)'', filter_css := ''blur(0px)''\<rparr>)
               (style_of w Title)
       \<and> style_of w' Tagline
           = map_option (\<lambda>s. s\<lparr>opacity := ''1'', transform := ''translateY(0)''\<rparr>) (style_of w Tagline)
       \<and> style_of w' ComingSoon = map_option (\<lambda>s. s\<lparr>opacity := ''1''\<rparr>) (style_of w ComingSoon)
       \<and> style_of w' Loading = map_option (\<lambda>s. s\<lparr>display := ''none''\<rparr>) (style_of w Loading)
       \<and> style_of w' Content = map_option (\<lambda>s. s\<lparr>opacity := ''1''\<rparr>) (style_of w Content)
       \<and> (\<forall>r. classes_of w' r
               = (if r = Content then map_option (removeAll ''hidden'') (classes_of w Content)
                  else classes_of w r))
       \<and> (\<forall>r. r \<notin> {Loading, Content, Title, Tagline, ComingSoon} \<longrightarrow> elements w' r = elements w r)
       \<and> (\<forall>r. present w' r = present w r)"
proof -
  have run: "runEntranceAnimation w = Inr (showContentImmediately w)"
    using assms by (simp add: runEntranceAnimation_def)
  show ?thesis
    unfolding run
    using showContent_only_page[of w] showContent_styles[of w] showContent_classes[of w]
      showContent_others[of _ w] showContent_present[of w]
    by (simp add: showContent_fields)
qed

theorem reduced_motion_total_bypass_witness:
  "reducedMotion reduced_page
   \<and> (\<exists>w'. runEntranceAnimation reduced_page = Inr w' \<and> trace w' = [] \<and> timers w' = []
          \<and> particles w' = None
          \<and> map_option opacity (style_of w' Title) = Some ''1''
          \<and> map_option transform (style_of w' Title) = Some ''scale(1)''
          \<and> map_option filter_css (style_of w' Title) = Some ''blur(0px)''
          \<and> map_option opacity (style_of w' Tagline) = Some ''1''
          \<and> map_option opacity (style_of w' ComingSoon) = Some ''1''
          \<and> map_option display (style_of w' Loading) = Some ''none'')"
proof -
  have h: "reducedMotion reduced_page" by (simp add: page_defs)
  have s: "style_of reduced_page r = Some (style blank_element)" for r
    by (simp add: page_defs style_defs)
  have f: "trace reduced_page = []" "timers reduced_page = []" "particles reduced_page = None"
    by (simp_all add: page_defs)
  from reduced_motion_total_bypass[OF h] obtain w' where
    "runEntranceAnimation reduced_page = Inr w'" "trace w' = trace reduced_page"
    "timers w' = timers reduced_page" "particles w' = particles reduced_page"
    "style_of w' Title
       = map_option (\<lambda>s. s\<lparr>opacity := ''1'', transform := ''scale(1)'', filter_css := ''blur(0px)''\<rparr>)
           (style_of reduced_page Title)"
    "style_of w' Tagline
       = map_option (\<lambda>s. s\<lparr>opacity := ''1'', transform := ''translateY(0)''\<rparr>)
           (style_of reduced_page Tagline)"
    "style_of w' ComingSoon = map_option (\<lambda>s. s\<lparr>opacity := ''1''\<rparr>) (style_of reduced_page ComingSoon)"
    "style_of w' Loading = map_option (\<lambda>s. s\<lparr>display := ''none''\<rparr>) (style_of reduced_page Loading)"
    by blast
  with h s f show ?thesis by simp
qed

text \<open>
  The claim as stated promises a neutral transform and filter for all three texts. The
  bypass writes neither for the coming-soon marker, and no filter for the tagline: on a
  reduced-motion page where the marker is scaled down and blurred and the tagline blurred,
  they still are after the call, at opacity \<open>1\<close>.
\<close>

theorem reduced_motion_keeps_marker_transform_counterexample:
  "reducedMotion shrunk_marker_page
   \<and> runEntranceAnimation shrunk_marker_page = Inr (showContentImmediately shrunk_marker_page)
   \<and> map_option opacity (style_of (showContentImmediately shrunk_marker_page) ComingSoon)
       = Some ''1''
   \<and> map_option transform (style_of (showContentImmediately shrunk_marker_page) ComingSoon)
       = Some ''scale(0.8)''
   \<and> map_option filter_css (style_of (showContentImmediately shrunk_marker_page) ComingSoon)
       = Some ''blur(5px)''
   \<and> map_option opacity (style_of (showContentImmediately shrunk_marker_page) Tagline)
       = Some ''1''
   \<and> map_option filter_css (style_of (showContentImmediately shrunk_marker_page) Tagline)
       = Some ''blur(3px)''"
proof -
  have r: "reducedMotion shrunk_marker_page"
    by (simp add: shrunk_marker_page_def page_defs style_defs elem_simps)
  have c: "style_of shrunk_marker_page ComingSoon
             = Some ((style blank_element)\<lparr>transform := ''scale(0.8)'', filter_css := ''blur(5px)''\<rparr>)"
    by (simp add: shrunk_marker_page_def page_defs style_defs elem_simps)
  have t: "style_of shrunk_marker_page Tagline
             = Some ((style blank_element)\<lparr>filter_css := ''blur(3px)''\<rparr>)"
    by (simp add: shrunk_marker_page_def page_defs style_defs elem_simps)
  from r have run: "runEntranceAnimation shrunk_marker_page
                      = Inr (showContentImmediately shrunk_marker_page)"
    by (simp add: runEntranceAnimation_def)
  from showContent_styles[of shrunk_marker_page] r run c t
  show ?thesis by simp
qed

lemma style_of_update_trace: "style_of (w\<lparr>trace := t\<rparr>) r = style_of w r"
  by (simp add: style_of_def)

lemma classes_of_update_trace: "classes_of (w\<lparr>trace := t\<rparr>) r = classes_of w r"
  by (simp add: classes_of_def)

lemma effect_calls_warn: "effect_calls (tr @ [(t, ConsoleWarn m)]) = effect_calls tr"
  by (simp add: effect_calls_def)

text \<open>
  Claim C5. When one of the required elements (content container, title, tagline,
  coming-soon marker, lightning overlay) is absent, \<open>runEntranceAnimation\<close> returns
  normally, sets no timer, calls no flash or flicker, leaves particles and ambient state
  alone, and reveals everything that is there: the title, the tagline and the coming-soon
  marker get opacity \<open>1\<close> (the title also \<open>scale(1)\<close> and \<open>blur(0px)\<close>, the tagline
  \<open>translateY(0)\<close>), the loading indicator display \<open>none\<close>, the content container opacity
  \<open>1\<close> without the class \<open>hidden\<close>. This is the world of the reduced-motion bypass: the
  same page, and every other field equal but for the preference itself and the one warning
  logged when the preference is off.
\<close>

theorem missing_required_element_reveals:
  assumes "r \<in> {Content, Title, Tagline, ComingSoon, LightningOverlay}" and "elements w r = None"
  shows "\<exists>w' wb. runEntranceAnimation w = Inr w'
       \<and> runEntranceAnimation (w\<lparr>reducedMotion := True\<rparr>) = Inr wb
       \<and> w' = wb\<lparr>reducedMotion := reducedMotion w, trace := trace w'\<rparr>
       \<and> elements w' = elements wb
       \<and> timers w' = timers w \<and> now w' = now w
       \<and> particles w' = particles w \<and> sessions w' = sessions w
       \<and> ambientCleanup w' = ambientCleanup w
       \<and> trace w' =
            (if reducedMotion w then trace w
             else trace w @ [(now w, ConsoleWarn
               ''Animation: Required DOM elements not found, showing content immediately'')])
       \<and> effect_calls (trace w') = effect_calls (trace w)
       \<and> style_of w' Title
           = map_option (\<lambda>s. s\<lparr>opacity := ''1'', transform := ''scale(1)'', filter_css := ''blur(0px)''\<rparr>)
               (style_of w Title)
       \<and> style_of w' Tagline
           = map_option (\<lambda>s. s\<lparr>opacity := ''1'', transform := ''translateY(0)''\<rparr>) (style_of w Tagline)
       \<and> style_of w' ComingSoon = map_option (\<lambda>s. s\<lparr>opacity := ''1''\<rparr>) (style_of w ComingSoon)
       \<and> style_of w' Loading = map_option (\<lambda>s. s\<lparr>display := ''none''\<rparr>) (style_of w Loading)
       \<and> style_of w' Content = map_option (\<lambda>s. s\<lparr>opacity := ''1''\<rparr>) (style_of w Content)
       \<and> (\<forall>q. classes_of w' q
               = (if q = Content then map_option (removeAll ''hidden'') (classes_of w Content)
                  else classes_of w q))
       \<and> (\<forall>q. q \<notin> {Loading, Content, Title, Tagline, ComingSoon} \<longrightarrow> elements w' q = elements w q)"
proof -
  from assms have nr: "\<not> required_present w"
    by (auto simp: required_present_def present_def)
  have b: "runEntranceAnimation (w\<lparr>reducedMotion := True\<rparr>)
             = Inr ((showContentImmediately w)\<lparr>reducedMotion := True\<rparr>)"
    by (simp add: runEntranceAnimation_def showContent_reducedMotion)
  show ?thesis
  proof (cases "reducedMotion w")
    case True
    then have a: "runEntranceAnimation w = Inr (showContentImmediately w)"
      by (simp add: runEntranceAnimation_def)
    show ?thesis unfolding a b
      using True showContent_styles[of w] showContent_classes[of w] showContent_others[of _ w]
      by (simp add: showContent_fields)
  next
    case False
    then have a: "runEntranceAnimation w
        = Inr ((showContentImmediately w)\<lparr>trace := trace w @ [(now w, ConsoleWarn
               ''Animation: Required DOM elements not found, showing content immediately'')]\<rparr>)"
      using nr by (simp add: runEntranceAnimation_def emit_def showContent_trace)
    show ?thesis unfolding a b
      using False showContent_styles[of w] showContent_classes[of w] showContent_others[of _ w]
      by (simp add: showContent_fields style_of_update_trace classes_of_update_trace
          effect_calls_warn)
  qed
qed

theorem missing_required_element_reveals_witness:
  "Title \<in> {Content, Title, Tagline, ComingSoon, LightningOverlay}
   \<and> elements untitled_page Title = None
   \<and> (\<exists>w' wb. runEntranceAnimation untitled_page = Inr w'
          \<and> runEntranceAnimation (untitled_page\<lparr>reducedMotion := True\<rparr>) = Inr wb
          \<and> elements w' = elements wb \<and> timers w' = []
          \<and> trace w' = [(0, ConsoleWarn
               ''Animation: Required DOM elements not found, showing content immediately'')]
          \<and> style_of w' Title = None
          \<and> map_option opacity (style_of w' Tagline) = Some ''1''
          \<and> map_option transform (style_of w' Tagline) = Some ''translateY(0)''
          \<and> map_option opacity (style_of w' ComingSoon) = Some ''1''
          \<and> map_option display (style_of w' Loading) = Some ''none''
          \<and> map_option opacity (style_of w' Content) = Some ''1'')"
proof -
  have h1: "Title \<in> {Content, Title, Tagline, ComingSoon, LightningOverlay}" by simp
  have h2: "elements untitled_page Title = None" by (simp add: page_defs)
  have f: "trace untitled_page = []" "timers untitled_page = []" "now untitled_page = 0"
    "\<not> reducedMotion untitled_page"
    by (simp_all add: page_defs)
  have s: "style_of untitled_page Title = None"
    "style_of untitled_page Tagline = Some (style blank_element)"
    "style_of untitled_page ComingSoon = Some (style blank_element)"
    "style_of untitled_page Loading = Some (style blank_element)"
    "style_of untitled_page Content = Some (style blank_element)"
    by (simp_all add: page_defs style_defs)
  from missing_required_element_reveals[OF h1 h2] obtain w' wb where
    "runEntranceAnimation untitled_page = Inr w'"
    "runEntranceAnimation (untitled_page\<lparr>reducedMotion := True\<rparr>) = Inr wb"
    "elements w' = elements wb" "timers w' = timers untitled_page"
    "trace w' =
       (if reducedMotion untitled_page then trace untitled_page
        else trace untitled_page @ [(now untitled_page, ConsoleWarn
               ''Animation: Required DOM elements not found, showing content immediately'')])"
    "style_of w' Title
       = map_option (\<lambda>s. s\<lparr>opacity := ''1'', transform := ''scale(1)'', filter_css := ''blur(0px)''\<rparr>)
           (style_of untitled_page Title)"
    "style_of w' Tagline
       = map_option (\<lambda>s. s\<lparr>opacity := ''1'', transform := ''translateY(0)''\<rparr>)
           (style_of untitled_page Tagline)"
    "style_of w' ComingSoon = map_option (\<lambda>s. s\<lparr>opacity := ''1''\<rparr>) (style_of untitled_page ComingSoon)"
    "style_of w' Loading = map_option (\<lambda>s. s\<lparr>display := ''none''\<rparr>) (style_of untitled_page Loading)"
    "style_of w' Content = map_option (\<lambda>s. s\<lparr>opacity := ''1''\<rparr>) (style_of untitled_page Content)"
    by blast
  with h1 h2 f s show ?thesis by simp
qed

section \<open>A failing particle engine\<close>

lemma particles_add_timer: "particles (add_timer cb d e w) = particles w"
  by (simp add: add_timer_def)

lemma particles_run_cont: "particles (run_cont k w) = particles w"
  by (cases k) (simp_all add: ambient_defs timer_defs Let_def split_def)

lemma particles_flash: "particles (flashLightning overlay i k w) = particles w"
  by (simp add: flash_defs timer_defs style_defs elem_simps Let_def particles_run_cont)

lemma particles_flicker: "particles (flickerLightning overlay k w) = particles w"
  by (simp add: flash_defs timer_defs style_defs elem_simps Let_def particles_run_cont)

lemma particles_flicker_resume: "particles (flicker_resume pc overlay k w) = particles w"
  by (cases pc) (simp_all add: timer_defs style_defs elem_simps Let_def split_def particles_run_cont)

lemma particles_timeline_call:
  "particles w = None \<Longrightarrow> particles (timeline_call f w) = None"
  by (cases f)
     (simp_all add: particles_flash particles_flicker trigger_defs timer_defs style_defs elem_simps
        ambient_defs Let_def split_def accelerateParticles_def resetParticles_def)

lemma particles_exec_task:
  "particles w = None \<Longrightarrow> particles (exec_task t w) = None"
  by (cases t)
     (simp_all add: particles_timeline_call particles_flicker_resume particles_flash
        particles_flicker particles_run_cont flash_off_def flash_settled_def
        removeBlueTint_def trigger_defs timer_defs style_defs elem_simps ambient_defs Let_def
        split_def split: tween.splits option.splits)

lemma particles_step:
  "particles w = None \<Longrightarrow> step w = Some w' \<Longrightarrow> particles w' = None"
  by (auto simp: step_def Let_def particles_exec_task split: option.splits)

lemma particles_run: "particles w = None \<Longrightarrow> particles (run n w) = None"
proof (induction n arbitrary: w)
  case 0
  then show ?case by simp
next
  case (Suc n)
  then show ?case
    by (cases "step w") (auto dest: particles_step)
qed


lemma play_child_frame:
  "elements (play_child c w) = elements w \<and> particles (play_child c w) = particles w
   \<and> trace (play_child c w) = trace w \<and> now (play_child c w) = now w"
  by (cases "c_item c") (simp_all add: add_timer_def)

lemma fold_play_child_frame:
  "elements (fold play_child cs w) = elements w \<and> particles (fold play_child cs w) = particles w
   \<and> trace (fold play_child cs w) = trace w \<and> now (fold play_child cs w) = now w"
  by (induction cs arbitrary: w) (simp_all add: play_child_frame del: play_child.simps)

lemma play_frame:
  "elements (play cs w) = elements w \<and> particles (play cs w) = particles w
   \<and> trace (play cs w) = trace w \<and> now (play cs w) = now w"
  by (simp add: play_def add_timer_def fold_play_child_frame)

lemma play_child_cong:
  assumes "timers a = timers b" "now a = now b" "nextTimerId a = nextTimerId b"
  shows "timers (play_child c a) = timers (play_child c b)
       \<and> now (play_child c a) = now (play_child c b)
       \<and> nextTimerId (play_child c a) = nextTimerId (play_child c b)"
  using assms by (cases "c_item c") (simp_all add: add_timer_def)

lemma fold_play_child_cong:
  assumes "timers a = timers b" "now a = now b" "nextTimerId a = nextTimerId b"
  shows "timers (fold play_child cs a) = timers (fold play_child cs b)
       \<and> now (fold play_child cs a) = now (fold play_child cs b)
       \<and> nextTimerId (fold play_child cs a) = nextTimerId (fold play_child cs b)"
  using assms
proof (induction cs arbitrary: a b)
  case Nil
  then show ?case by simp
next
  case (Cons c cs)
  from play_child_cong[OF Cons.prems, of c] Cons.IH[of "play_child c a" "play_child c b"]
  show ?case by (simp del: play_child.simps)
qed

lemma play_cong:
  assumes "timers a = timers b" "now a = now b" "nextTimerId a = nextTimerId b"
  shows "timers (play cs a) = timers (play cs b)"
  using fold_play_child_cong[OF assms, of cs] by (simp add: play_def add_timer_def)

lemma run_main:
  assumes "\<not> reducedMotion w" and "required_present w"
  shows "runEntranceAnimation w = Inr (play entrance_timeline (prepare_page (init_particles_guarded w)))"
  using assms by (simp add: runEntranceAnimation_def prepare_page_def Let_def)

lemma prepare_page_frame:
  "particles (prepare_page w) = particles w"
  "now (prepare_page w) = now w"
  by (simp_all add: prepare_page_def Let_def style_defs elem_simps timer_defs)

lemma prepare_page_cong:
  assumes "elements a = elements b" "timers a = timers b" "now a = now b"
    "nextTimerId a = nextTimerId b"
  shows "elements (prepare_page a) = elements (prepare_page b) \<and> timers (prepare_page a) = timers (prepare_page b)
       \<and> now (prepare_page a) = now (prepare_page b) \<and> nextTimerId (prepare_page a) = nextTimerId (prepare_page b)"
  using assms by (simp add: prepare_page_def Let_def style_defs elem_simps timer_defs)

lemma prepare_page_trace: "set (trace w) \<subseteq> set (trace (prepare_page w))"
  by (auto simp add: prepare_page_def Let_def style_defs elem_simps timer_defs)

lemma init_failure:
  assumes "present w ParticlesContainer" and "initParticles (tsParticles w) = Inl e"
  shows "init_particles_guarded w
           = emit (ConsoleWarn ''Animation: Failed to initialize particles'')
               (emit ParticlesInitCalled (w\<lparr>particles := None\<rparr>))"
  using assms by (simp add: init_particles_guarded_def present_def Let_def)

lemma init_undefined:
  assumes "present w ParticlesContainer"
  shows "init_particles_guarded (w\<lparr>tsParticles := \<lparr>loadSlim = Inr (), load = Inr None\<rparr>\<rparr>)
           = emit ParticlesInitCalled
               (w\<lparr>tsParticles := \<lparr>loadSlim = Inr (), load = Inr None\<rparr>, particles := None\<rparr>)"
  using assms
  by (simp add: init_particles_guarded_def initParticles_def present_def Let_def emit_def)

text \<open>
  Claim C8. When the particle container is present and \<open>initParticles\<close> rejects, the entry
  point still returns normally: the rejection is logged with \<^verbatim>\<open>console.warn\<close>, the handle
  stays absent, and the page and the whole schedule (loading fade, every timeline child,
  the completion of the timeline) are those of a run whose engine yields no handle. The
  handle is absent after any number of callbacks, and the two particle callbacks of the
  timeline leave such a world as it is.
\<close>

theorem particle_init_failure_is_swallowed:
  assumes "\<not> reducedMotion w" and "required_present w" and "present w ParticlesContainer"
    and "initParticles (tsParticles w) = Inl e"
  shows "\<exists>w' wu. runEntranceAnimation w = Inr w'
       \<and> runEntranceAnimation (w\<lparr>tsParticles := \<lparr>loadSlim = Inr (), load = Inr None\<rparr>\<rparr>) = Inr wu
       \<and> particles w' = None \<and> particles wu = None
       \<and> (now w, ConsoleWarn ''Animation: Failed to initialize particles'') \<in> set (trace w')
       \<and> timers w' = timers wu \<and> elements w' = elements wu
       \<and> t_task (last (timers w')) = TimelineComplete
       \<and> (\<forall>n. particles (run n w') = None)
       \<and> timeline_call Accelerate w' = w' \<and> timeline_call ResetP w' = w'"
proof -
  let ?u = "w\<lparr>tsParticles := \<lparr>loadSlim = Inr (), load = Inr None\<rparr>\<rparr>"
  let ?a = "init_particles_guarded w"
  let ?b = "init_particles_guarded ?u"
  let ?w' = "play entrance_timeline (prepare_page ?a)"
  let ?wu = "play entrance_timeline (prepare_page ?b)"
  have a: "runEntranceAnimation w = Inr ?w'"
    by (rule run_main[OF assms(1,2)])
  have b: "runEntranceAnimation ?u = Inr ?wu"
    using assms(1,2) by (intro run_main) (simp_all add: required_present_def present_def)
  have ia: "?a = emit (ConsoleWarn ''Animation: Failed to initialize particles'')
                   (emit ParticlesInitCalled (w\<lparr>particles := None\<rparr>))"
    by (rule init_failure[OF assms(3,4)])
  have ib: "?b = emit ParticlesInitCalled (?u\<lparr>particles := None\<rparr>)"
    using init_undefined[OF assms(3)] by simp
  have pa: "particles ?w' = None"
    by (simp add: play_frame prepare_page_frame ia emit_def)
  have pb: "particles ?wu = None"
    by (simp add: play_frame prepare_page_frame ib emit_def)
  have "(now w, ConsoleWarn ''Animation: Failed to initialize particles'') \<in> set (trace ?a)"
    by (simp add: ia emit_def)
  with prepare_page_trace[of ?a]
  have tr: "(now w, ConsoleWarn ''Animation: Failed to initialize particles'') \<in> set (trace ?w')"
    by (auto simp add: play_frame)
  have same: "elements ?a = elements ?b" "timers ?a = timers ?b" "now ?a = now ?b"
    "nextTimerId ?a = nextTimerId ?b"
    by (simp_all add: ia ib emit_def)
  note pc = prepare_page_cong[OF same]
  have tm: "timers ?w' = timers ?wu"
    using pc by (intro play_cong) simp_all
  have el: "elements ?w' = elements ?wu"
    using pc by (simp add: play_frame)
  have lst: "t_task (last (timers ?w')) = TimelineComplete"
    by (simp add: play_def add_timer_def)
  have stay: "\<forall>n. particles (run n ?w') = None"
    using pa by (simp add: particles_run)
  have noop: "timeline_call Accelerate ?w' = ?w'" "timeline_call ResetP ?w' = ?w'"
    using pa by (simp_all add: accelerateParticles_def resetParticles_def)
  show ?thesis
    unfolding a b using pa pb tr tm el lst stay noop by simp
qed

theorem particle_init_failure_is_swallowed_witness:
  "\<not> reducedMotion failing_page \<and> required_present failing_page
   \<and> present failing_page ParticlesContainer
   \<and> initParticles (tsParticles failing_page) = Inl (Error ''load failed'')
   \<and> (\<exists>w'. runEntranceAnimation failing_page = Inr w' \<and> particles w' = None
          \<and> (0, ConsoleWarn ''Animation: Failed to initialize particles'') \<in> set (trace w')
          \<and> t_task (last (timers w')) = TimelineComplete
          \<and> particles (run 100 w') = None)"
proof -
  have h1: "\<not> reducedMotion failing_page" by (simp add: page_defs)
  have h2: "required_present failing_page" by (simp add: page_defs required_present_def present_def)
  have h3: "present failing_page ParticlesContainer" by (simp add: page_defs present_def)
  have h4: "initParticles (tsParticles failing_page) = Inl (Error ''load failed'')"
    by (simp add: page_defs initParticles_def)
  have n: "now failing_page = 0" by (simp add: page_defs)
  from particle_init_failure_is_swallowed[OF h1 h2 h3 h4] obtain w' where
    "runEntranceAnimation failing_page = Inr w'" "particles w' = None"
    "(now failing_page, ConsoleWarn ''Animation: Failed to initialize particles'') \<in> set (trace w')"
    "t_task (last (timers w')) = TimelineComplete" "\<forall>n. particles (run n w') = None"
    by blast
  with h1 h2 h3 h4 n show ?thesis by auto
qed

section \<open>The impact instant\<close>
















end
